theory Spec2Isabelle
  imports Main "HOL-Library.Word"
begin

section \<open>The native side of android.view.InputChannel\<close>

text \<open>
  A shallow embedding of \<^verbatim>\<open>core/jni/android_view_InputChannel.cpp\<close>.  Every native
  method becomes a function on an explicit \<open>world\<close>: the C++ heap holding the
  \<^verbatim>\<open>NativeInputChannel\<close> objects, the pending exception of the \<^verbatim>\<open>JNIEnv\<close>, the
  \<^verbatim>\<open>mPtr\<close> fields of the managed objects, and two logs (dispose callbacks that were
  invoked, lines written with \<^verbatim>\<open>ALOGW\<close>/\<^verbatim>\<open>ALOGE\<close>).

  Pointers and \<^verbatim>\<open>jlong\<close> handles are natural numbers, \<open>0\<close> being \<^verbatim>\<open>nullptr\<close>;
  \<^verbatim>\<open>reinterpret_cast\<close> between the two is the identity.  A method that dereferences a
  pointer returns an \<open>option\<close>: \<open>None\<close> is undefined behaviour of the C++ (a dangling
  pointer, a call through a null \<^verbatim>\<open>sp<InputChannel>\<close>).
\<close>

subsection \<open>The channel primitive and the parcel (external to the file)\<close>

text \<open>
  Modelled from the spec: \<^verbatim>\<open>InputChannel\<close> (input/InputTransport.h) is not under src/.
  The file only uses its name, its connection token, and its \<^verbatim>\<open>dup\<close>, \<^verbatim>\<open>read\<close> and
  \<^verbatim>\<open>write\<close>; the spec gives it a name, an identity token and a raw transport
  resource.  Names are C strings, so \<^verbatim>\<open>c_str()\<close> is the identity on them.  An
  \<^verbatim>\<open>sp<InputChannel>\<close> is an \<open>InputChannel option\<close>, \<open>None\<close> being the null pointer; an
  \<^verbatim>\<open>sp<IBinder>\<close> is a \<open>nat option\<close> likewise.
\<close>

record InputChannel =
  getName :: string
  getFd :: nat
  getConnectionToken :: "nat option"

text \<open>
  Modelled from the spec: the serialization container (binder/Parcel.h) is not under
  src/.  It is a queue of items: a write appends, a read takes from the front;
  \<^verbatim>\<open>readInt32\<close> answers 0 when no integer is there to read.
\<close>

datatype parcel_item = PInt32 "32 word" | PString string | PFd nat | PBinder "nat option"

type_synonym parcel = "parcel_item list"

definition writeInt32 :: "32 word \<Rightarrow> parcel \<Rightarrow> parcel" where
  "writeInt32 v p = p @ [PInt32 v]"

fun readInt32 :: "parcel \<Rightarrow> 32 word \<times> parcel" where
  "readInt32 (PInt32 v # rest) = (v, rest)"
| "readInt32 p = (0, p)"

text \<open>
  What the file calls and cannot see is a parameter of the model: the pair factory of
  the channel primitive with its \<^verbatim>\<open>status_t\<close>, \<^verbatim>\<open>strerror\<close>, and the channel's own
  \<^verbatim>\<open>dup\<close>, \<^verbatim>\<open>write\<close> (the items it appends to a parcel) and \<^verbatim>\<open>read\<close>.
  \<^verbatim>\<open>status_t\<close> and the \<^verbatim>\<open>int\<close> that \<^verbatim>\<open>strerror\<close> takes are 32-bit words in two's
  complement (\<open>- 24\<close> is the word of the status -24); negating one wraps, so the
  negation of the least status is that status again.
\<close>

record ext =
  openInputChannelPair :: "string \<Rightarrow> 32 word \<times> InputChannel option \<times> InputChannel option"
  strerror :: "32 word \<Rightarrow> string"
  ic_dup :: "InputChannel \<Rightarrow> InputChannel option"
  ic_write :: "InputChannel \<Rightarrow> parcel_item list"
  ic_read :: "parcel \<Rightarrow> InputChannel option \<times> parcel"

subsection \<open>NativeInputChannel and the world around it\<close>

text \<open>
  \<^verbatim>\<open>mDisposeCallback\<close> is a function pointer (\<open>0\<close> is \<^verbatim>\<open>nullptr\<close>).  The constructor does
  not initialise \<^verbatim>\<open>mDisposeData\<close>: \<open>None\<close> is that indeterminate value, \<open>Some p\<close> the
  pointer \<open>p\<close>.
\<close>

record NativeInputChannel =
  mInputChannel :: "InputChannel option"
  mDisposeCallback :: nat
  mDisposeData :: "nat option"

datatype jthrowable = RuntimeException string | OutOfMemoryError

datatype log_line = ALOGW string | ALOGE string

datatype jobject = JNull | JBinder nat

text \<open>One call of a dispose callback, with the four arguments it received.\<close>

record hook_call =
  hc_callback :: nat
  hc_obj :: nat
  hc_channel :: "InputChannel option"
  hc_data :: "nat option"

record world =
  heap :: "nat \<Rightarrow> NativeInputChannel option"
  brk :: nat
  pending :: "jthrowable option"
  java_oom :: bool
  mPtr :: "nat \<Rightarrow> nat"
  invoked :: "hook_call list"
  logcat :: "log_line list"

text \<open>
  \<open>brk\<close> is the last address \<^verbatim>\<open>operator new\<close> handed out; an address above it, or one
  that was deleted, holds no object.
\<close>

definition deref :: "world \<Rightarrow> nat \<Rightarrow> NativeInputChannel option" where
  "deref w p = (if p = 0 \<or> brk w < p then None else heap w p)"

definition new_NativeInputChannel :: "InputChannel option \<Rightarrow> world \<Rightarrow> nat \<times> world" where
  "new_NativeInputChannel inputChannel w =
     (let p = Suc (brk w) in
      (p, w\<lparr>heap := (heap w)(p := Some \<lparr>mInputChannel = inputChannel,
                                          mDisposeCallback = 0,
                                          mDisposeData = None\<rparr>),
            brk := p\<rparr>))"

definition delete_NativeInputChannel :: "nat \<Rightarrow> world \<Rightarrow> world" where
  "delete_NativeInputChannel p w = w\<lparr>heap := (heap w)(p := None)\<rparr>"

subsubsection \<open>The JNI functions the file calls\<close>

definition jniThrowRuntimeException :: "string \<Rightarrow> world \<Rightarrow> world" where
  "jniThrowRuntimeException msg w = w\<lparr>pending := Some (RuntimeException msg)\<rparr>"

definition ExceptionCheck :: "world \<Rightarrow> bool" where
  "ExceptionCheck w = (case pending w of None \<Rightarrow> False | Some e \<Rightarrow> True)"

definition NewLongArray :: "nat \<Rightarrow> world \<Rightarrow> nat list option \<times> world" where
  "NewLongArray n w =
     (if java_oom w then (None, w\<lparr>pending := Some OutOfMemoryError\<rparr>)
      else (Some (replicate n 0), w))"

definition NewStringUTF :: "string \<Rightarrow> world \<Rightarrow> string option \<times> world" where
  "NewStringUTF s w =
     (if java_oom w then (None, w\<lparr>pending := Some OutOfMemoryError\<rparr>)
      else (Some s, w))"

text \<open>
  Modelled from the spec: \<^verbatim>\<open>javaObjectForIBinder\<close> (android_util_Binder.h) is not under
  src/; it gives the managed object that stands for a binder token, null for a null
  token.
\<close>

definition javaObjectForIBinder :: "nat option \<Rightarrow> jobject" where
  "javaObjectForIBinder token = (case token of None \<Rightarrow> JNull | Some b \<Rightarrow> JBinder b)"

subsection \<open>class NativeInputChannel\<close>

definition setDisposeCallback :: "nat \<Rightarrow> nat \<Rightarrow> NativeInputChannel \<Rightarrow> NativeInputChannel" where
  "setDisposeCallback callback data this =
     this\<lparr>mDisposeCallback := callback, mDisposeData := Some data\<rparr>"

text \<open>
  The callback's own body belongs to whoever registered it.  \<open>call_dispose_callback\<close>
  is the statement \<^verbatim>\<open>mDisposeCallback(env, obj, mInputChannel, mDisposeData)\<close>: it
  gives the world the callback runs in and returns to, which is the world before with
  the call and its four arguments recorded; the object is as it was.  The two
  assignments that clear the fields come after it.
\<close>

definition call_dispose_callback :: "NativeInputChannel \<Rightarrow> nat \<Rightarrow> world \<Rightarrow> world" where
  "call_dispose_callback self obj w =
     w\<lparr>invoked := invoked w @ [\<lparr>hc_callback = mDisposeCallback self,
                                    hc_obj = obj,
                                    hc_channel = mInputChannel self,
                                    hc_data = mDisposeData self\<rparr>]\<rparr>"

definition invokeAndRemoveDisposeCallback :: "nat \<Rightarrow> nat \<Rightarrow> world \<Rightarrow> world option" where
  "invokeAndRemoveDisposeCallback this obj w =
     (case deref w this of
        None \<Rightarrow> None
      | Some self \<Rightarrow>
          if mDisposeCallback self \<noteq> 0 then
            (let w1 = call_dispose_callback self obj w in
             Some (w1\<lparr>heap := (heap w1)(this := Some (self\<lparr>mDisposeCallback := 0,
                                                           mDisposeData := Some 0\<rparr>))\<rparr>))
          else Some w)"

subsection \<open>The functions of the file\<close>

definition android_view_InputChannel_getNativeInputChannel :: "world \<Rightarrow> nat \<Rightarrow> nat" where
  "android_view_InputChannel_getNativeInputChannel w inputChannelObj = mPtr w inputChannelObj"

definition android_view_InputChannel_getInputChannel ::
  "world \<Rightarrow> nat \<Rightarrow> InputChannel option option" where
  "android_view_InputChannel_getInputChannel w inputChannelObj =
     (let nativeInputChannel = android_view_InputChannel_getNativeInputChannel w inputChannelObj in
      if nativeInputChannel \<noteq> 0 then
        (case deref w nativeInputChannel of
           None \<Rightarrow> None
         | Some self \<Rightarrow> Some (mInputChannel self))
      else Some None)"

definition android_view_InputChannel_setDisposeCallback ::
  "world \<Rightarrow> nat \<Rightarrow> nat \<Rightarrow> nat \<Rightarrow> world option" where
  "android_view_InputChannel_setDisposeCallback w inputChannelObj callback data =
     (let nativeInputChannel = android_view_InputChannel_getNativeInputChannel w inputChannelObj in
      if nativeInputChannel = 0 then
        Some (w\<lparr>logcat := logcat w @
          [ALOGW ''Cannot set dispose callback because input channel object has not been initialized.'']\<rparr>)
      else
        (case deref w nativeInputChannel of
           None \<Rightarrow> None
         | Some self \<Rightarrow>
             Some (w\<lparr>heap := (heap w)(nativeInputChannel :=
                      Some (setDisposeCallback callback data self))\<rparr>)))"

definition android_view_InputChannel_createInputChannel ::
  "InputChannel option \<Rightarrow> world \<Rightarrow> nat \<times> world" where
  "android_view_InputChannel_createInputChannel inputChannel w =
     new_NativeInputChannel inputChannel w"

text \<open>
  The name is a managed string that is not null, and \<^verbatim>\<open>GetLongArrayElements\<close> gives
  the elements of the array it is asked for.
\<close>

definition android_view_InputChannel_nativeOpenInputChannelPair ::
  "ext \<Rightarrow> world \<Rightarrow> string \<Rightarrow> nat list option \<times> world" where
  "android_view_InputChannel_nativeOpenInputChannelPair x w name =
     (case openInputChannelPair x name of
        (result, serverChannel, clientChannel) \<Rightarrow>
          if result \<noteq> 0 then
            (None, jniThrowRuntimeException
                     (''Could not open input channel pair : '' @ strerror x (- result)) w)
          else
            (case NewLongArray 2 w of
               (None, w1) \<Rightarrow> (None, w1)
             | (Some channelPair, w1) \<Rightarrow>
                 (case android_view_InputChannel_createInputChannel serverChannel w1 of
                    (p0, w2) \<Rightarrow>
                      if ExceptionCheck w2 then (None, w2)
                      else
                        (case android_view_InputChannel_createInputChannel clientChannel w2 of
                           (p1, w3) \<Rightarrow>
                             if ExceptionCheck w3 then (None, w3)
                             else (Some (channelPair[0 := p0, 1 := p1]), w3)))))"

definition InputChannel_nativeDestroy :: "world \<Rightarrow> nat \<Rightarrow> world option" where
  "InputChannel_nativeDestroy w rawInputChannel =
     (if rawInputChannel \<noteq> 0 then
        (case deref w rawInputChannel of
           None \<Rightarrow> None
         | Some self \<Rightarrow> Some (delete_NativeInputChannel rawInputChannel w))
      else Some w)"

definition android_view_InputChannel_getNativeFinalizer :: "world \<Rightarrow> nat \<Rightarrow> world option" where
  "android_view_InputChannel_getNativeFinalizer = InputChannel_nativeDestroy"

definition android_view_InputChannel_nativeDispose :: "world \<Rightarrow> nat \<Rightarrow> nat \<Rightarrow> world option" where
  "android_view_InputChannel_nativeDispose w obj channel =
     (if channel \<noteq> 0 then invokeAndRemoveDisposeCallback channel obj w
      else Some w)"

text \<open>
  \<^verbatim>\<open>parcelForJavaObject\<close> gives the native parcel of a managed one, or null: the parcel
  argument is a \<open>parcel option\<close>, and comes back as the method leaves it.
\<close>

definition android_view_InputChannel_nativeReadFromParcel ::
  "ext \<Rightarrow> world \<Rightarrow> parcel option \<Rightarrow> nat \<times> parcel option \<times> world" where
  "android_view_InputChannel_nativeReadFromParcel x w parcelObj =
     (case parcelObj of
        None \<Rightarrow> (0, None, w)
      | Some parcel \<Rightarrow>
          (case readInt32 parcel of
             (isInitialized, parcel1) \<Rightarrow>
               if isInitialized \<noteq> 0 then
                 (case ic_read x parcel1 of
                    (inputChannel, parcel2) \<Rightarrow>
                      (case new_NativeInputChannel inputChannel w of
                         (nativeInputChannel, w1) \<Rightarrow> (nativeInputChannel, Some parcel2, w1)))
               else (0, Some parcel1, w)))"

definition android_view_InputChannel_nativeWriteToParcel ::
  "ext \<Rightarrow> world \<Rightarrow> parcel option \<Rightarrow> nat \<Rightarrow> (parcel option \<times> world) option" where
  "android_view_InputChannel_nativeWriteToParcel x w parcelObj channel =
     (case parcelObj of
        None \<Rightarrow>
          Some (None, w\<lparr>logcat := logcat w @ [ALOGE ''Could not obtain parcel for Java object'']\<rparr>)
      | Some parcel \<Rightarrow>
          if channel = 0 then Some (Some (writeInt32 0 parcel), w)
          else
            (case deref w channel of
               None \<Rightarrow> None
             | Some self \<Rightarrow>
                 (case mInputChannel self of
                    None \<Rightarrow> None
                  | Some c \<Rightarrow> Some (Some (writeInt32 1 parcel @ ic_write x c), w))))"

definition android_view_InputChannel_nativeGetName ::
  "world \<Rightarrow> nat \<Rightarrow> (string option \<times> world) option" where
  "android_view_InputChannel_nativeGetName w channel =
     (if channel = 0 then Some (None, w)
      else
        (case deref w channel of
           None \<Rightarrow> None
         | Some self \<Rightarrow>
             (case mInputChannel self of
                None \<Rightarrow> None
              | Some c \<Rightarrow> Some (NewStringUTF (getName c) w))))"

text \<open>
  The first two error branches return 0 after the throw; the third one, for a failed
  \<^verbatim>\<open>dup\<close>, has no return and runs on into the last line of the function.
\<close>

definition android_view_InputChannel_nativeDup ::
  "ext \<Rightarrow> world \<Rightarrow> nat \<Rightarrow> (nat \<times> world) option" where
  "android_view_InputChannel_nativeDup x w channel =
     (if channel = 0 then
        Some (0, jniThrowRuntimeException ''InputChannel has no valid NativeInputChannel'' w)
      else
        (case deref w channel of
           None \<Rightarrow> None
         | Some self \<Rightarrow>
             (case mInputChannel self of
                None \<Rightarrow>
                  Some (0, jniThrowRuntimeException
                             ''NativeInputChannel has no corresponding InputChannel'' w)
              | Some inputChannel \<Rightarrow>
                  (let dupInputChannel = ic_dup x inputChannel;
                       w1 = (if dupInputChannel = None then
                               jniThrowRuntimeException
                                 (''Could not duplicate input channel '' @ getName inputChannel) w
                             else w)
                   in Some (new_NativeInputChannel dupInputChannel w1)))))"

definition android_view_InputChannel_nativeGetToken ::
  "world \<Rightarrow> nat \<Rightarrow> (jobject \<times> world) option" where
  "android_view_InputChannel_nativeGetToken w channel =
     (if channel \<noteq> 0 then
        (case deref w channel of
           None \<Rightarrow> None
         | Some self \<Rightarrow>
             (case mInputChannel self of
                None \<Rightarrow> None
              | Some c \<Rightarrow> Some (javaObjectForIBinder (getConnectionToken c), w)))
      else Some (JNull, w))"

subsection \<open>The table of native methods\<close>

text \<open>
  One constructor for each entry of \<^verbatim>\<open>gInputChannelMethods\<close> that runs on a world
  (\<^verbatim>\<open>nativeGetFinalizer\<close> only hands out the finalizer), and one for the exported
  \<^verbatim>\<open>android_view_InputChannel_setDisposeCallback\<close>; \<open>world_after\<close> is the world a
  call leaves behind.
\<close>

datatype native_call =
    OpenInputChannelPair string
  | Dispose nat nat
  | ReadFromParcel "parcel option"
  | WriteToParcel "parcel option" nat
  | GetName nat
  | Dup nat
  | GetToken nat
  | SetDisposeCallback nat nat nat

fun world_after :: "ext \<Rightarrow> world \<Rightarrow> native_call \<Rightarrow> world option" where
  "world_after x w (OpenInputChannelPair name) =
     Some (snd (android_view_InputChannel_nativeOpenInputChannelPair x w name))"
| "world_after x w (Dispose obj channel) = android_view_InputChannel_nativeDispose w obj channel"
| "world_after x w (ReadFromParcel parcelObj) =
     Some (snd (snd (android_view_InputChannel_nativeReadFromParcel x w parcelObj)))"
| "world_after x w (WriteToParcel parcelObj channel) =
     map_option snd (android_view_InputChannel_nativeWriteToParcel x w parcelObj channel)"
| "world_after x w (GetName channel) =
     map_option snd (android_view_InputChannel_nativeGetName w channel)"
| "world_after x w (Dup channel) = map_option snd (android_view_InputChannel_nativeDup x w channel)"
| "world_after x w (GetToken channel) =
     map_option snd (android_view_InputChannel_nativeGetToken w channel)"
| "world_after x w (SetDisposeCallback inputChannelObj callback data) =
     android_view_InputChannel_setDisposeCallback w inputChannelObj callback data"

text \<open>\<^verbatim>\<open>nativeDispose\<close> called \<open>n\<close> times in a row on the same reference.\<close>

primrec dispose_times :: "nat \<Rightarrow> world \<Rightarrow> nat \<Rightarrow> nat \<Rightarrow> world option" where
  "dispose_times 0 w obj channel = Some w"
| "dispose_times (Suc n) w obj channel =
     (case android_view_InputChannel_nativeDispose w obj channel of
        None \<Rightarrow> None
      | Some w1 \<Rightarrow> dispose_times n w1 obj channel)"

text \<open>
  Every object of the first world is still there in the second, holding the same
  channel.
\<close>

definition keeps_channels :: "world \<Rightarrow> world \<Rightarrow> bool" where
  "keeps_channels w w' =
     (\<forall>p self. deref w p = Some self \<longrightarrow>
        (\<exists>self'. deref w' p = Some self' \<and> mInputChannel self' = mInputChannel self))"

subsection \<open>Sample inputs\<close>

text \<open>
  Concrete inputs on which the model is evaluated.  \<open>ext_ok\<close> is a channel primitive
  whose calls succeed: both ends of a pair carry the name and one token, \<^verbatim>\<open>dup\<close> and
  \<^verbatim>\<open>read\<close> give a channel on another descriptor, \<^verbatim>\<open>write\<close> appends name, descriptor
  and token.  \<open>ext_emfile\<close> is the same primitive once the descriptor table is full
  (errno 24): no pair, no duplicate.
\<close>

fun sample_read :: "parcel \<Rightarrow> InputChannel option \<times> parcel" where
  "sample_read (PString n # PFd f # PBinder t # rest) =
     (Some \<lparr>getName = n, getFd = f + 10, getConnectionToken = t\<rparr>, rest)"
| "sample_read p = (None, p)"

definition ext_ok :: ext where
  "ext_ok = \<lparr>openInputChannelPair = (\<lambda>name.
                (0, Some \<lparr>getName = name, getFd = 3, getConnectionToken = Some 42\<rparr>,
                    Some \<lparr>getName = name, getFd = 4, getConnectionToken = Some 42\<rparr>)),
             strerror = (\<lambda>e. if e = 24 then ''Too many open files'' else ''Unknown error''),
             ic_dup = (\<lambda>c. Some (c\<lparr>getFd := getFd c + 10\<rparr>)),
             ic_write = (\<lambda>c. [PString (getName c), PFd (getFd c), PBinder (getConnectionToken c)]),
             ic_read = sample_read\<rparr>"

definition ext_emfile :: ext where
  "ext_emfile = ext_ok\<lparr>openInputChannelPair := (\<lambda>name. (- 24, None, None)),
                       ic_dup := (\<lambda>c. None)\<rparr>"

definition chanA :: InputChannel where
  "chanA = \<lparr>getName = ''x'', getFd = 3, getConnectionToken = Some 42\<rparr>"

text \<open>
  \<open>world0\<close>: nothing allocated yet.  \<open>world1\<close>: one live object at address 3, owned by
  the managed object 7, wrapping \<open>chanA\<close> with the callback 5 and its data 9
  registered.  \<open>world1_disposed\<close>: \<open>world1\<close> after that callback ran for object 7.
  \<open>world1_failed_dup\<close>: \<open>world1\<close> after a duplication that the primitive refused.
\<close>

definition world0 :: world where
  "world0 = \<lparr>heap = (\<lambda>p. None), brk = 0, pending = None, java_oom = False,
             mPtr = (\<lambda>obj. 0), invoked = [], logcat = []\<rparr>"

definition handleA :: NativeInputChannel where
  "handleA = \<lparr>mInputChannel = Some chanA, mDisposeCallback = 5, mDisposeData = Some 9\<rparr>"

definition world1 :: world where
  "world1 = \<lparr>heap = (\<lambda>p. None)(3 := Some handleA),
             brk = 3, pending = None, java_oom = False,
             mPtr = (\<lambda>obj. if obj = 7 then 3 else 0), invoked = [], logcat = []\<rparr>"

definition world1_disposed :: world where
  "world1_disposed =
     world1\<lparr>invoked := [\<lparr>hc_callback = 5, hc_obj = 7, hc_channel = Some chanA,
                          hc_data = Some 9\<rparr>],
            heap := (heap world1)(3 := Some \<lparr>mInputChannel = Some chanA, mDisposeCallback = 0,
                                            mDisposeData = Some 0\<rparr>)\<rparr>"

definition world1_failed_dup :: world where
  "world1_failed_dup =
     world1\<lparr>pending := Some (RuntimeException ''Could not duplicate input channel x''),
            heap := (heap world1)(4 := Some \<lparr>mInputChannel = None, mDisposeCallback = 0,
                                            mDisposeData = None\<rparr>),
            brk := 4\<rparr>"

section \<open>Properties\<close>

subsection \<open>Reading the heap\<close>

lemma deref_Some_iff:
  "deref w p = Some self \<longleftrightarrow> p \<noteq> 0 \<and> p \<le> brk w \<and> heap w p = Some self"
  by (auto simp: deref_def)

lemma deref_world1: "deref world1 3 = Some handleA"
  by (simp add: deref_def world1_def)

lemma dispose_world1:
  "android_view_InputChannel_nativeDispose world1 7 3 = Some world1_disposed"
  by (simp add: android_view_InputChannel_nativeDispose_def invokeAndRemoveDisposeCallback_def call_dispose_callback_def Let_def
        deref_def world1_def world1_disposed_def handleA_def)

lemma dispose_world1_disposed:
  "android_view_InputChannel_nativeDispose world1_disposed obj 3 = Some world1_disposed"
  by (simp add: android_view_InputChannel_nativeDispose_def invokeAndRemoveDisposeCallback_def call_dispose_callback_def Let_def
        deref_def world1_def world1_disposed_def)

subsection \<open>What a call leaves of the handles\<close>

lemma keeps_channels_refl: "keeps_channels w w"
  by (simp add: keeps_channels_def)

lemma keeps_channels_trans:
  "keeps_channels w w1 \<Longrightarrow> keeps_channels w1 w2 \<Longrightarrow> keeps_channels w w2"
  unfolding keeps_channels_def by fastforce

lemma keeps_channels_same_heap:
  "heap w' = heap w \<Longrightarrow> brk w' = brk w \<Longrightarrow> keeps_channels w w'"
  by (simp add: keeps_channels_def deref_def)

lemma keeps_channels_new:
  "keeps_channels w (snd (new_NativeInputChannel inputChannel w))"
  by (auto simp: keeps_channels_def new_NativeInputChannel_def deref_def Let_def)

lemma keeps_channels_throw: "keeps_channels w (jniThrowRuntimeException msg w)"
  by (simp add: keeps_channels_same_heap jniThrowRuntimeException_def)

lemma keeps_channels_NewStringUTF: "keeps_channels w (snd (NewStringUTF s w))"
  by (simp add: keeps_channels_same_heap NewStringUTF_def)

lemma keeps_channels_dispose:
  "android_view_InputChannel_nativeDispose w obj channel = Some w' \<Longrightarrow> keeps_channels w w'"
  by (auto simp: android_view_InputChannel_nativeDispose_def invokeAndRemoveDisposeCallback_def call_dispose_callback_def Let_def
        keeps_channels_def deref_def split: if_splits option.splits)

lemma keeps_channels_set:
  "android_view_InputChannel_setDisposeCallback w inputChannelObj callback data = Some w'
   \<Longrightarrow> keeps_channels w w'"
  by (auto simp: android_view_InputChannel_setDisposeCallback_def setDisposeCallback_def
        keeps_channels_def deref_def Let_def split: if_splits option.splits)

lemma keeps_channels_open:
  "keeps_channels w (snd (android_view_InputChannel_nativeOpenInputChannelPair x w name))"
proof -
  obtain result serverChannel clientChannel
    where o: "openInputChannelPair x name = (result, serverChannel, clientChannel)"
    by (cases "openInputChannelPair x name") auto
  have two: "keeps_channels v
      (snd (new_NativeInputChannel b (snd (new_NativeInputChannel a v))))" for a b v
    by (rule keeps_channels_trans [OF keeps_channels_new keeps_channels_new])
  show ?thesis
    using o keeps_channels_throw keeps_channels_new two
    by (auto simp: android_view_InputChannel_nativeOpenInputChannelPair_def
          android_view_InputChannel_createInputChannel_def NewLongArray_def
          keeps_channels_same_heap split: prod.splits option.splits)
      (metis snd_conv)+
qed

lemma keeps_channels_read:
  "keeps_channels w (snd (snd (android_view_InputChannel_nativeReadFromParcel x w parcelObj)))"
  using keeps_channels_new
  by (auto simp: android_view_InputChannel_nativeReadFromParcel_def keeps_channels_refl
        split: option.splits prod.splits) (metis snd_conv)

lemma keeps_channels_write:
  "android_view_InputChannel_nativeWriteToParcel x w parcelObj channel = Some (r, w')
   \<Longrightarrow> keeps_channels w w'"
  by (auto simp: android_view_InputChannel_nativeWriteToParcel_def keeps_channels_refl
        keeps_channels_same_heap split: option.splits if_splits)

lemma keeps_channels_getName:
  "android_view_InputChannel_nativeGetName w channel = Some (r, w') \<Longrightarrow> keeps_channels w w'"
  using keeps_channels_NewStringUTF
  by (auto simp: android_view_InputChannel_nativeGetName_def keeps_channels_refl
        split: option.splits if_splits) (metis snd_conv)

lemma keeps_channels_getToken:
  "android_view_InputChannel_nativeGetToken w channel = Some (r, w') \<Longrightarrow> keeps_channels w w'"
  by (auto simp: android_view_InputChannel_nativeGetToken_def keeps_channels_refl
        split: option.splits if_splits)

lemma keeps_channels_dup:
  assumes "android_view_InputChannel_nativeDup x w channel = Some (r, w')"
  shows "keeps_channels w w'"
proof -
  have thrown: "keeps_channels w (snd (new_NativeInputChannel d (jniThrowRuntimeException m w)))"
    for d m
    by (rule keeps_channels_trans [OF keeps_channels_throw keeps_channels_new])
  from assms show ?thesis
    using thrown keeps_channels_new keeps_channels_throw
    by (auto simp: android_view_InputChannel_nativeDup_def Let_def
          split: option.splits if_splits) (metis snd_conv)+
qed

lemma keeps_channels_call:
  assumes "world_after x w call = Some w'"
  shows "keeps_channels w w'"
proof (cases call)
  case (OpenInputChannelPair name)
  with assms show ?thesis using keeps_channels_open by auto
next
  case (Dispose obj channel)
  with assms show ?thesis using keeps_channels_dispose by auto
next
  case (ReadFromParcel parcelObj)
  with assms show ?thesis using keeps_channels_read by auto
next
  case (WriteToParcel parcelObj channel)
  with assms show ?thesis using keeps_channels_write by auto
next
  case (GetName channel)
  with assms show ?thesis using keeps_channels_getName by auto
next
  case (Dup channel)
  with assms show ?thesis using keeps_channels_dup by auto
next
  case (GetToken channel)
  with assms show ?thesis using keeps_channels_getToken by auto
next
  case (SetDisposeCallback inputChannelObj callback data)
  with assms show ?thesis using keeps_channels_set by auto
qed

lemma dispose_times_numeral:
  "dispose_times (numeral k) w obj channel =
     (case android_view_InputChannel_nativeDispose w obj channel of
        None \<Rightarrow> None
      | Some w1 \<Rightarrow> dispose_times (pred_numeral k) w1 obj channel)"
  by (simp add: numeral_eq_Suc)

lemma dispose_times_idle:
  assumes "deref w channel = Some self" and "mDisposeCallback self = 0"
  shows "dispose_times n w obj channel = Some w"
proof -
  from assms(1) have nz: "channel \<noteq> 0" by (simp add: deref_Some_iff)
  have step: "android_view_InputChannel_nativeDispose w obj channel = Some w"
    using assms nz
    by (simp add: android_view_InputChannel_nativeDispose_def invokeAndRemoveDisposeCallback_def)
  show ?thesis
    by (induction n) (simp_all add: step)
qed

lemma dispose_times_exact:
  assumes "deref w channel = Some self"
  shows "dispose_times n w obj channel =
     Some (if n = 0 \<or> mDisposeCallback self = 0 then w
           else w\<lparr>invoked := invoked w @ [\<lparr>hc_callback = mDisposeCallback self, hc_obj = obj,
                                               hc_channel = mInputChannel self,
                                               hc_data = mDisposeData self\<rparr>],
                  heap := (heap w)(channel := Some (self\<lparr>mDisposeCallback := 0,
                                                         mDisposeData := Some 0\<rparr>))\<rparr>)"
proof (cases "n = 0 \<or> mDisposeCallback self = 0")
  case True
  with assms show ?thesis
    by (auto simp: dispose_times_idle)
next
  case False
  then obtain m where n: "n = Suc m" and cb: "mDisposeCallback self \<noteq> 0"
    by (cases n) auto
  from assms have r: "channel \<noteq> 0" "channel \<le> brk w" "heap w channel = Some self"
    by (auto simp: deref_Some_iff)
  define w1 where
    "w1 = w\<lparr>invoked := invoked w @ [\<lparr>hc_callback = mDisposeCallback self, hc_obj = obj,
                                     hc_channel = mInputChannel self,
                                     hc_data = mDisposeData self\<rparr>],
            heap := (heap w)(channel := Some (self\<lparr>mDisposeCallback := 0,
                                                   mDisposeData := Some 0\<rparr>))\<rparr>"
  have first: "android_view_InputChannel_nativeDispose w obj channel = Some w1"
    using assms r cb
    by (simp add: android_view_InputChannel_nativeDispose_def invokeAndRemoveDisposeCallback_def
          call_dispose_callback_def Let_def w1_def)
  have d: "deref w1 channel = Some (self\<lparr>mDisposeCallback := 0, mDisposeData := Some 0\<rparr>)"
    using r by (simp add: deref_def w1_def)
  have "dispose_times m w1 obj channel = Some w1"
    by (rule dispose_times_idle [OF d]) simp
  with first n cb show ?thesis
    by (simp add: w1_def)
qed

subsection \<open>Disposal\<close>

text \<open>
  C1.  Disposing a live handle twice in a row: the first call returns a world \<open>w1\<close>,
  the second call returns that same world (it raises nothing and changes nothing), and
  over both calls the log of callback invocations grows by exactly one entry when a
  callback was registered (by none otherwise).  After the first call the callback
  field is null, and the data field is null too when the callback ran.  Disposing the
  absent reference \<open>0\<close> does nothing at all.
\<close>

theorem dispose_twice:
  assumes "deref w channel = Some self"
  shows "\<exists>w1. android_view_InputChannel_nativeDispose w obj channel = Some w1
      \<and> android_view_InputChannel_nativeDispose w1 other_obj channel = Some w1
      \<and> invoked w1 = invoked w @
           (if mDisposeCallback self \<noteq> 0
            then [\<lparr>hc_callback = mDisposeCallback self, hc_obj = obj,
                   hc_channel = mInputChannel self, hc_data = mDisposeData self\<rparr>]
            else [])
      \<and> pending w1 = pending w
      \<and> (\<exists>self1. deref w1 channel = Some self1 \<and> mDisposeCallback self1 = 0
            \<and> (mDisposeCallback self \<noteq> 0 \<longrightarrow> mDisposeData self1 = Some 0))
      \<and> android_view_InputChannel_nativeDispose w obj 0 = Some w"
proof -
  from assms have r: "channel \<noteq> 0" "channel \<le> brk w" "heap w channel = Some self"
    by (auto simp: deref_Some_iff)
  show ?thesis
  proof (cases "mDisposeCallback self = 0")
    case True
    with assms r show ?thesis
      by (simp add: android_view_InputChannel_nativeDispose_def invokeAndRemoveDisposeCallback_def call_dispose_callback_def Let_def)
  next
    case False
    with assms r show ?thesis
      by (simp add: android_view_InputChannel_nativeDispose_def invokeAndRemoveDisposeCallback_def call_dispose_callback_def Let_def
            deref_def)
  qed
qed

theorem dispose_twice_witness:
  "deref world1 3 = Some handleA
   \<and> android_view_InputChannel_nativeDispose world1 7 3 = Some world1_disposed
   \<and> android_view_InputChannel_nativeDispose world1_disposed 8 3 = Some world1_disposed
   \<and> invoked world1 = []
   \<and> invoked world1_disposed =
       [\<lparr>hc_callback = 5, hc_obj = 7, hc_channel = Some chanA, hc_data = Some 9\<rparr>]"
proof -
  have i: "invoked world1 = []" by (simp add: world1_def)
  have cb: "mDisposeCallback handleA = 5" "mInputChannel handleA = Some chanA"
    "mDisposeData handleA = Some 9"
    by (simp_all add: handleA_def)
  from dispose_twice [OF deref_world1, of 7 8] show ?thesis
    by (auto simp: deref_world1 dispose_world1 i cb)
qed




text \<open>
  C9.  \<^verbatim>\<open>android_view_InputChannel_setDisposeCallback\<close> on a managed object whose
  \<^verbatim>\<open>mPtr\<close> is 0 only appends a warning to the log: no exception, no other change.  On an
  object whose \<^verbatim>\<open>mPtr\<close> is a live handle, the callback and data fields become the ones
  just given, whatever was there; registering a second time leaves only the second
  pair in the handle, nothing is invoked, raised or logged by registering, and a
  following \<^verbatim>\<open>nativeDispose\<close> invokes the second callback alone (nothing if it is
  null).
\<close>

theorem set_dispose_callback:
  "(android_view_InputChannel_getNativeInputChannel w inputChannelObj = 0 \<longrightarrow>
      android_view_InputChannel_setDisposeCallback w inputChannelObj callback data =
        Some (w\<lparr>logcat := logcat w @
          [ALOGW ''Cannot set dispose callback because input channel object has not been initialized.'']\<rparr>))
   \<and> (deref w (android_view_InputChannel_getNativeInputChannel w inputChannelObj) = Some self \<longrightarrow>
        (\<exists>w1 w2 w3.
           android_view_InputChannel_setDisposeCallback w inputChannelObj callback data = Some w1
         \<and> deref w1 (mPtr w inputChannelObj) =
             Some (self\<lparr>mDisposeCallback := callback, mDisposeData := Some data\<rparr>)
         \<and> android_view_InputChannel_setDisposeCallback w1 inputChannelObj later_callback later_data = Some w2
         \<and> deref w2 (mPtr w inputChannelObj) =
             Some (self\<lparr>mDisposeCallback := later_callback, mDisposeData := Some later_data\<rparr>)
         \<and> invoked w2 = invoked w \<and> pending w2 = pending w \<and> logcat w2 = logcat w
         \<and> android_view_InputChannel_nativeDispose w2 obj (mPtr w inputChannelObj) = Some w3
         \<and> invoked w3 = invoked w @
             (if later_callback \<noteq> 0
              then [\<lparr>hc_callback = later_callback, hc_obj = obj,
                     hc_channel = mInputChannel self, hc_data = Some later_data\<rparr>]
              else [])))"
  by (auto simp: android_view_InputChannel_setDisposeCallback_def
        android_view_InputChannel_getNativeInputChannel_def setDisposeCallback_def
        android_view_InputChannel_nativeDispose_def invokeAndRemoveDisposeCallback_def
        call_dispose_callback_def deref_def Let_def split: if_splits)

theorem set_dispose_callback_witness:
  "android_view_InputChannel_getNativeInputChannel world1 8 = 0
   \<and> android_view_InputChannel_setDisposeCallback world1 8 6 10 =
       Some (world1\<lparr>logcat :=
          [ALOGW ''Cannot set dispose callback because input channel object has not been initialized.'']\<rparr>)
   \<and> deref world1 (android_view_InputChannel_getNativeInputChannel world1 7) = Some handleA
   \<and> map_option (\<lambda>v. deref v 3) (android_view_InputChannel_setDisposeCallback world1 7 6 10) =
       Some (Some \<lparr>mInputChannel = Some chanA, mDisposeCallback = 6, mDisposeData = Some 10\<rparr>)"
proof -
  have p8: "android_view_InputChannel_getNativeInputChannel world1 8 = 0"
    by (simp add: android_view_InputChannel_getNativeInputChannel_def world1_def)
  have p7: "android_view_InputChannel_getNativeInputChannel world1 7 = 3"
    by (simp add: android_view_InputChannel_getNativeInputChannel_def world1_def)
  have m7: "mPtr world1 7 = 3" by (simp add: world1_def)
  have l: "logcat world1 = []" by (simp add: world1_def)
  from set_dispose_callback [where w = world1 and inputChannelObj = 8 and callback = 6
                                 and data = 10]
       set_dispose_callback [where w = world1 and inputChannelObj = 7 and callback = 6
                                 and data = 10 and self = handleA and later_callback = 6
                                 and later_data = 10 and obj = 7]
  show ?thesis
    by (auto simp: p8 p7 m7 l deref_world1 handleA_def)
qed

text \<open>
  C10.  Any number of \<^verbatim>\<open>nativeDispose\<close> calls on a live handle that holds a channel
  run to the end, and the world they leave is the world before, except that when a
  callback was registered (and at least one call was made) that callback was called
  once and the callback and data fields of this handle are null.  So nothing is
  pending or logged that was not, no \<^verbatim>\<open>mPtr\<close> changes, nothing is allocated, every
  other handle is exactly as it was, and this handle differs at most in its callback
  and data fields: its channel is the one it had.  On the disposed reference
  \<^verbatim>\<open>nativeGetName\<close> still hands the channel's name to \<^verbatim>\<open>NewStringUTF\<close> (so it returns
  the name whenever the runtime can allocate the string) and \<^verbatim>\<open>nativeGetToken\<close> still
  returns the object of the channel's token.  \<^verbatim>\<open>InputChannel_nativeDestroy\<close> then frees
  the handle.  No other native method, and not the registration of a callback, frees a
  handle or changes its channel.
\<close>

theorem dispose_touches_only_the_hook:
  assumes "deref w channel = Some self" and "mInputChannel self = Some c"
  shows "\<exists>w'. dispose_times n w obj channel = Some w'
      \<and> w' = (if n = 0 \<or> mDisposeCallback self = 0 then w
              else w\<lparr>invoked := invoked w @ [\<lparr>hc_callback = mDisposeCallback self,
                                                  hc_obj = obj, hc_channel = Some c,
                                                  hc_data = mDisposeData self\<rparr>],
                     heap := (heap w)(channel := Some \<lparr>mInputChannel = Some c,
                                                        mDisposeCallback = 0,
                                                        mDisposeData = Some 0\<rparr>)\<rparr>)
      \<and> pending w' = pending w \<and> logcat w' = logcat w \<and> mPtr w' = mPtr w
      \<and> brk w' = brk w \<and> java_oom w' = java_oom w
      \<and> (\<forall>p. p \<noteq> channel \<longrightarrow> deref w' p = deref w p)
      \<and> (\<exists>self'. deref w' channel = Some self' \<and> mInputChannel self' = Some c
            \<and> self'\<lparr>mDisposeCallback := mDisposeCallback self,
                     mDisposeData := mDisposeData self\<rparr> = self)
      \<and> keeps_channels w w'
      \<and> android_view_InputChannel_nativeGetName w' channel = Some (NewStringUTF (getName c) w')
      \<and> (\<not> java_oom w \<longrightarrow>
            android_view_InputChannel_nativeGetName w' channel = Some (Some (getName c), w'))
      \<and> android_view_InputChannel_nativeGetToken w' channel =
            Some (javaObjectForIBinder (getConnectionToken c), w')
      \<and> (\<exists>w''. InputChannel_nativeDestroy w' channel = Some w'' \<and> deref w'' channel = None)
      \<and> (\<forall>call v v'. world_after x v call = Some v' \<longrightarrow> keeps_channels v v')"
proof -
  from assms(1) have r: "channel \<noteq> 0" "channel \<le> brk w" "heap w channel = Some self"
    by (auto simp: deref_Some_iff)
  have cleared: "self\<lparr>mDisposeCallback := 0, mDisposeData := Some 0\<rparr> =
      \<lparr>mInputChannel = Some c, mDisposeCallback = 0, mDisposeData = Some 0\<rparr>"
    using assms(2) by (cases self) simp
  define w' where
    "w' = (if n = 0 \<or> mDisposeCallback self = 0 then w
           else w\<lparr>invoked := invoked w @ [\<lparr>hc_callback = mDisposeCallback self,
                                               hc_obj = obj, hc_channel = Some c,
                                               hc_data = mDisposeData self\<rparr>],
                  heap := (heap w)(channel := Some \<lparr>mInputChannel = Some c,
                                                     mDisposeCallback = 0,
                                                     mDisposeData = Some 0\<rparr>)\<rparr>)"
  have run: "dispose_times n w obj channel = Some w'"
    using dispose_times_exact [OF assms(1), of n obj]
    by (simp only: cleared assms(2) w'_def)
  have frame: "pending w' = pending w" "logcat w' = logcat w" "mPtr w' = mPtr w"
    "brk w' = brk w" "java_oom w' = java_oom w"
    by (simp_all add: w'_def)
  have others: "\<forall>p. p \<noteq> channel \<longrightarrow> deref w' p = deref w p"
    by (simp add: w'_def deref_def)
  have s: "\<exists>self'. deref w' channel = Some self' \<and> mInputChannel self' = Some c
            \<and> self'\<lparr>mDisposeCallback := mDisposeCallback self,
                     mDisposeData := mDisposeData self\<rparr> = self"
    using assms r by (cases self) (auto simp: w'_def deref_def)
  then obtain self' where
    s': "deref w' channel = Some self'" "mInputChannel self' = Some c"
    by blast
  have k: "keeps_channels w w'"
    using assms r by (auto simp: keeps_channels_def w'_def deref_def)
  have name: "android_view_InputChannel_nativeGetName w' channel =
      Some (NewStringUTF (getName c) w')"
    using s' r(1) by (simp add: android_view_InputChannel_nativeGetName_def)
  have name': "\<not> java_oom w \<longrightarrow>
      android_view_InputChannel_nativeGetName w' channel = Some (Some (getName c), w')"
    using name frame(5) by (simp add: NewStringUTF_def)
  have token: "android_view_InputChannel_nativeGetToken w' channel =
      Some (javaObjectForIBinder (getConnectionToken c), w')"
    using s' r(1) by (simp add: android_view_InputChannel_nativeGetToken_def)
  have destroy: "\<exists>w''. InputChannel_nativeDestroy w' channel = Some w'' \<and> deref w'' channel = None"
    using s' r(1)
    by (simp add: InputChannel_nativeDestroy_def delete_NativeInputChannel_def deref_def)
  have only: "\<forall>call v v'. world_after x v call = Some v' \<longrightarrow> keeps_channels v v'"
    using keeps_channels_call by blast
  show ?thesis
    by (rule exI [of _ w'])
       (intro conjI; fact w'_def run frame others s k name name' token destroy only)
qed

theorem dispose_touches_only_the_hook_witness:
  "deref world1 3 = Some handleA
   \<and> mInputChannel handleA = Some chanA
   \<and> dispose_times 3 world1 7 3 = Some world1_disposed
   \<and> pending world1_disposed = pending world1
   \<and> logcat world1_disposed = logcat world1
   \<and> mPtr world1_disposed = mPtr world1
   \<and> android_view_InputChannel_nativeGetName world1_disposed 3 =
       Some (Some ''x'', world1_disposed)
   \<and> android_view_InputChannel_nativeGetToken world1_disposed 3 =
       Some (JBinder 42, world1_disposed)
   \<and> map_option (\<lambda>v. deref v 3) (InputChannel_nativeDestroy world1_disposed 3) = Some None"
proof -
  have c: "mInputChannel handleA = Some chanA" by (simp add: handleA_def)
  have three: "dispose_times 3 world1 7 3 = Some world1_disposed"
    by (simp add: dispose_times_numeral dispose_world1 dispose_world1_disposed)
  have oom: "\<not> java_oom world1"
    by (simp add: world1_def)
  from dispose_touches_only_the_hook [OF deref_world1 c, of 3 7 ext_ok]
  obtain w' where
    "dispose_times 3 world1 7 3 = Some w'"
    "pending w' = pending world1" "logcat w' = logcat world1" "mPtr w' = mPtr world1"
    "\<not> java_oom world1 \<longrightarrow>
       android_view_InputChannel_nativeGetName w' 3 = Some (Some (getName chanA), w')"
    "android_view_InputChannel_nativeGetToken w' 3 =
       Some (javaObjectForIBinder (getConnectionToken chanA), w')"
    "\<exists>w''. InputChannel_nativeDestroy w' 3 = Some w'' \<and> deref w'' 3 = None"
    by blast
  with three oom show ?thesis
    by (auto simp: deref_world1 c javaObjectForIBinder_def chanA_def)
qed

subsection \<open>The wire format\<close>

text \<open>
  C4.  Given a parcel, \<^verbatim>\<open>nativeWriteToParcel\<close> of the absent reference \<open>0\<close> appends the
  int32 \<open>0\<close> and nothing else; of a live handle holding a channel it appends the int32
  \<open>1\<close> and then what the channel's own \<^verbatim>\<open>write\<close> appends.  \<^verbatim>\<open>nativeReadFromParcel\<close>
  reads the int32 first: on \<open>0\<close> it returns the reference \<open>0\<close>, consumes only that
  integer and leaves the world (so the pending exception) alone; on anything else it
  passes the rest of the parcel to the channel's \<^verbatim>\<open>read\<close>.  Hence reading what was
  written for the absent reference gives the absent reference.
\<close>

theorem presence_flag_layout:
  "android_view_InputChannel_nativeWriteToParcel x w (Some parcel) 0 =
     Some (Some (parcel @ [PInt32 0]), w)
   \<and> (deref w channel = Some self \<and> mInputChannel self = Some c \<longrightarrow>
        android_view_InputChannel_nativeWriteToParcel x w (Some parcel) channel =
          Some (Some (parcel @ PInt32 1 # ic_write x c), w))
   \<and> android_view_InputChannel_nativeReadFromParcel x v (Some (PInt32 0 # rest)) =
        (0, Some rest, v)
   \<and> (flag \<noteq> 0 \<longrightarrow>
        android_view_InputChannel_nativeReadFromParcel x v (Some (PInt32 flag # rest)) =
          (Suc (brk v), Some (snd (ic_read x rest)),
           snd (new_NativeInputChannel (fst (ic_read x rest)) v)))
   \<and> (\<exists>written. android_view_InputChannel_nativeWriteToParcel x w (Some []) 0 =
                    Some (Some written, w)
        \<and> android_view_InputChannel_nativeReadFromParcel x v (Some (written @ rest)) =
            (0, Some rest, v))"
proof -
  have absent: "android_view_InputChannel_nativeWriteToParcel x w (Some q) 0 =
      Some (Some (q @ [PInt32 0]), w)" for q
    by (simp add: android_view_InputChannel_nativeWriteToParcel_def writeInt32_def)
  have present: "android_view_InputChannel_nativeWriteToParcel x w (Some parcel) channel =
      Some (Some (parcel @ PInt32 1 # ic_write x c), w)"
    if "deref w channel = Some self \<and> mInputChannel self = Some c"
  proof -
    from that have "channel \<noteq> 0" by (simp add: deref_Some_iff)
    with that show ?thesis
      by (simp add: android_view_InputChannel_nativeWriteToParcel_def writeInt32_def)
  qed
  have zero: "android_view_InputChannel_nativeReadFromParcel x v (Some (PInt32 0 # q)) =
      (0, Some q, v)" for q
    by (simp add: android_view_InputChannel_nativeReadFromParcel_def)
  have one: "android_view_InputChannel_nativeReadFromParcel x v (Some (PInt32 flag # rest)) =
      (Suc (brk v), Some (snd (ic_read x rest)),
       snd (new_NativeInputChannel (fst (ic_read x rest)) v))"
    if "flag \<noteq> 0"
    using that
    by (simp add: android_view_InputChannel_nativeReadFromParcel_def new_NativeInputChannel_def
          Let_def split: prod.splits)
  show ?thesis
    using absent present zero one by simp
qed

theorem presence_flag_layout_witness:
  "deref world1 3 = Some handleA
   \<and> mInputChannel handleA = Some chanA
   \<and> android_view_InputChannel_nativeWriteToParcel ext_ok world1 (Some []) 3 =
       Some (Some [PInt32 1, PString ''x'', PFd 3, PBinder (Some 42)], world1)
   \<and> android_view_InputChannel_nativeWriteToParcel ext_ok world1 (Some []) 0 =
       Some (Some [PInt32 0], world1)
   \<and> android_view_InputChannel_nativeReadFromParcel ext_ok world0 (Some [PInt32 0]) =
       (0, Some [], world0)
   \<and> fst (android_view_InputChannel_nativeReadFromParcel ext_ok world0
        (Some [PInt32 1, PString ''x'', PFd 3, PBinder (Some 42)])) = 1"
proof -
  have b: "brk world0 = 0" by (simp add: world0_def)
  have c: "mInputChannel handleA = Some chanA" by (simp add: handleA_def)
  from presence_flag_layout [where x = ext_ok and w = world1 and parcel = "[]" and channel = 3
         and self = handleA and c = chanA and v = world0 and flag = 1
         and rest = "[PString ''x'', PFd 3, PBinder (Some 42)]"]
       presence_flag_layout [where x = ext_ok and w = world1 and parcel = "[]" and v = world0
         and rest = "[]"]
  show ?thesis
    by (simp add: deref_world1 c ext_ok_def chanA_def b)
qed

text \<open>
  C5.  Take a live handle holding a channel \<open>c\<close>, and a channel codec whose \<^verbatim>\<open>read\<close>,
  applied to what its \<^verbatim>\<open>write\<close> produced for \<open>c\<close>, returns a channel \<open>c'\<close> with the name
  and the token of \<open>c\<close> and leaves what followed.  Then \<^verbatim>\<open>nativeWriteToParcel\<close> into an
  empty parcel followed by \<^verbatim>\<open>nativeReadFromParcel\<close> (in any world) returns a
  reference that is not 0 and was not allocated before, to a handle that holds \<open>c'\<close>
  with no callback; \<^verbatim>\<open>nativeGetName\<close> and \<^verbatim>\<open>nativeGetToken\<close> on it answer with the
  name and the token of \<open>c\<close>, and nothing new is pending.
\<close>

theorem serialize_round_trip:
  assumes "deref w channel = Some self" and "mInputChannel self = Some c"
      and "ic_read x (ic_write x c @ rest) = (Some c', rest)"
      and "getName c' = getName c"
      and "getConnectionToken c' = getConnectionToken c"
  shows "\<exists>written h v'.
           android_view_InputChannel_nativeWriteToParcel x w (Some []) channel =
             Some (Some written, w)
         \<and> android_view_InputChannel_nativeReadFromParcel x v (Some (written @ rest)) =
             (h, Some rest, v')
         \<and> h \<noteq> 0 \<and> deref v h = None
         \<and> deref v' h =
             Some \<lparr>mInputChannel = Some c', mDisposeCallback = 0, mDisposeData = None\<rparr>
         \<and> android_view_InputChannel_nativeGetName v' h = Some (NewStringUTF (getName c) v')
         \<and> android_view_InputChannel_nativeGetToken v' h =
             Some (javaObjectForIBinder (getConnectionToken c), v')
         \<and> pending v' = pending v"
proof -
  from assms(1) have nz: "channel \<noteq> 0" by (simp add: deref_Some_iff)
  have wr: "android_view_InputChannel_nativeWriteToParcel x w (Some []) channel =
      Some (Some (PInt32 1 # ic_write x c), w)"
    using assms(1,2) nz
    by (simp add: android_view_InputChannel_nativeWriteToParcel_def writeInt32_def)
  define v' where "v' = snd (new_NativeInputChannel (Some c') v)"
  have rd: "android_view_InputChannel_nativeReadFromParcel x v
        (Some ((PInt32 1 # ic_write x c) @ rest)) = (Suc (brk v), Some rest, v')"
    using assms(3)
    by (simp add: android_view_InputChannel_nativeReadFromParcel_def v'_def
          new_NativeInputChannel_def Let_def)
  have fresh: "deref v (Suc (brk v)) = None"
    by (simp add: deref_def)
  have d: "deref v' (Suc (brk v)) =
      Some \<lparr>mInputChannel = Some c', mDisposeCallback = 0, mDisposeData = None\<rparr>"
    by (simp add: v'_def new_NativeInputChannel_def Let_def deref_def)
  have p: "pending v' = pending v"
    by (simp add: v'_def new_NativeInputChannel_def Let_def)
  have nm: "android_view_InputChannel_nativeGetName v' (Suc (brk v)) =
      Some (NewStringUTF (getName c) v')"
    using d assms(4) by (simp add: android_view_InputChannel_nativeGetName_def)
  have tk: "android_view_InputChannel_nativeGetToken v' (Suc (brk v)) =
      Some (javaObjectForIBinder (getConnectionToken c), v')"
    using d assms(5) by (simp add: android_view_InputChannel_nativeGetToken_def)
  show ?thesis
    using wr rd fresh d p nm tk by auto
qed

lemma read_sample_parcel:
  "android_view_InputChannel_nativeReadFromParcel ext_ok world0
     (Some [PInt32 1, PString ''x'', PFd 3, PBinder (Some 42)]) =
   (1, Some [],
    world0\<lparr>heap := (heap world0)(1 := Some \<lparr>mInputChannel = Some (chanA\<lparr>getFd := 13\<rparr>),
                                            mDisposeCallback = 0, mDisposeData = None\<rparr>),
           brk := 1\<rparr>)"
  by (simp add: android_view_InputChannel_nativeReadFromParcel_def ext_ok_def
        new_NativeInputChannel_def Let_def world0_def chanA_def)

theorem serialize_round_trip_witness:
  "deref world1 3 = Some handleA
   \<and> mInputChannel handleA = Some chanA
   \<and> ic_read ext_ok (ic_write ext_ok chanA @ []) = (Some (chanA\<lparr>getFd := 13\<rparr>), [])
   \<and> getName (chanA\<lparr>getFd := 13\<rparr>) = getName chanA
   \<and> getConnectionToken (chanA\<lparr>getFd := 13\<rparr>) = getConnectionToken chanA
   \<and> android_view_InputChannel_nativeWriteToParcel ext_ok world1 (Some []) 3 =
       Some (Some [PInt32 1, PString ''x'', PFd 3, PBinder (Some 42)], world1)
   \<and> fst (android_view_InputChannel_nativeReadFromParcel ext_ok world0
        (Some [PInt32 1, PString ''x'', PFd 3, PBinder (Some 42)])) = 1
   \<and> map_option fst (android_view_InputChannel_nativeGetName
        (snd (snd (android_view_InputChannel_nativeReadFromParcel ext_ok world0
           (Some [PInt32 1, PString ''x'', PFd 3, PBinder (Some 42)])))) 1) = Some (Some ''x'')
   \<and> map_option fst (android_view_InputChannel_nativeGetToken
        (snd (snd (android_view_InputChannel_nativeReadFromParcel ext_ok world0
           (Some [PInt32 1, PString ''x'', PFd 3, PBinder (Some 42)])))) 1) = Some (JBinder 42)"
proof -
  have c: "mInputChannel handleA = Some chanA" by (simp add: handleA_def)
  have codec: "ic_read ext_ok (ic_write ext_ok chanA @ []) = (Some (chanA\<lparr>getFd := 13\<rparr>), [])"
    by (simp add: ext_ok_def chanA_def)
  have wr: "android_view_InputChannel_nativeWriteToParcel ext_ok world1 (Some []) 3 =
       Some (Some [PInt32 1, PString ''x'', PFd 3, PBinder (Some 42)], world1)"
    by (simp add: android_view_InputChannel_nativeWriteToParcel_def deref_world1 writeInt32_def
          ext_ok_def chanA_def handleA_def)
  have oom: "\<not> java_oom world0" by (simp add: world0_def)
  from serialize_round_trip [OF deref_world1 c codec, of world0]
  show ?thesis
    using c codec wr oom
    by (auto simp: read_sample_parcel deref_world1 NewStringUTF_def javaObjectForIBinder_def)
       (simp_all add: chanA_def)
qed

subsection \<open>Opening a pair\<close>

text \<open>
  C7 (as the code has it).  Take a channel primitive that, when it reports status 0,
  returns two ends that are not null and carry the name it was given, and enter
  \<^verbatim>\<open>nativeOpenInputChannelPair\<close> with nothing pending.  It ends in one of three ways.
  If the primitive reports a status other than 0, it returns null with a
  \<open>RuntimeException\<close> pending whose message ends in \<^verbatim>\<open>strerror\<close> of the negated status,
  and the world is otherwise unchanged.  If the status is 0 and the runtime cannot
  allocate the result array, it returns null with the runtime's \<open>OutOfMemoryError\<close>
  pending, the world otherwise unchanged.  Otherwise it returns an array of two
  references, both fresh, to two new handles without callback, the first holding the
  server end and the second the client end, with nothing pending and every other
  handle, every log and every \<^verbatim>\<open>mPtr\<close> as it was; \<^verbatim>\<open>nativeGetName\<close> answers with the
  given name on both.  Whenever
  null is returned no handle was allocated; whenever an array is returned both its
  handles hold a channel and the two channels have the same name.
\<close>

theorem open_pair_outcomes:
  assumes "pending w = None"
      and "openInputChannelPair x name = (result, serverChannel, clientChannel)"
      and "result = 0 \<longrightarrow> serverChannel = Some s \<and> clientChannel = Some c
             \<and> getName s = name \<and> getName c = name"
  shows "\<exists>r w'. android_view_InputChannel_nativeOpenInputChannelPair x w name = (r, w')
      \<and> (result \<noteq> 0 \<longrightarrow> r = None
            \<and> w' = w\<lparr>pending := Some (RuntimeException
                       (''Could not open input channel pair : '' @ strerror x (- result)))\<rparr>)
      \<and> (result = 0 \<and> java_oom w \<longrightarrow> r = None \<and> w' = w\<lparr>pending := Some OutOfMemoryError\<rparr>)
      \<and> (result = 0 \<and> \<not> java_oom w \<longrightarrow>
            r = Some [Suc (brk w), Suc (Suc (brk w))]
          \<and> deref w (Suc (brk w)) = None \<and> deref w (Suc (Suc (brk w))) = None
          \<and> deref w' (Suc (brk w)) =
              Some \<lparr>mInputChannel = Some s, mDisposeCallback = 0, mDisposeData = None\<rparr>
          \<and> deref w' (Suc (Suc (brk w))) =
              Some \<lparr>mInputChannel = Some c, mDisposeCallback = 0, mDisposeData = None\<rparr>
          \<and> (\<forall>p. p \<noteq> Suc (brk w) \<and> p \<noteq> Suc (Suc (brk w)) \<longrightarrow> deref w' p = deref w p)
          \<and> w' = w\<lparr>heap := (heap w)
                        (Suc (brk w) := Some \<lparr>mInputChannel = Some s, mDisposeCallback = 0,
                                               mDisposeData = None\<rparr>,
                         Suc (Suc (brk w)) := Some \<lparr>mInputChannel = Some c,
                                                     mDisposeCallback = 0,
                                                     mDisposeData = None\<rparr>),
                      brk := Suc (Suc (brk w))\<rparr>
          \<and> pending w' = None
          \<and> android_view_InputChannel_nativeGetName w' (Suc (brk w)) = Some (Some name, w')
          \<and> android_view_InputChannel_nativeGetName w' (Suc (Suc (brk w))) =
              Some (Some name, w'))
      \<and> (r = None \<longrightarrow> (\<forall>p. deref w' p = deref w p) \<and> brk w' = brk w)
      \<and> (r = None \<or>
           (\<exists>p0 p1 h0 h1. r = Some [p0, p1] \<and> p0 \<noteq> 0 \<and> p1 \<noteq> 0 \<and> p0 \<noteq> p1
              \<and> deref w' p0 = Some h0 \<and> mInputChannel h0 = Some s
              \<and> deref w' p1 = Some h1 \<and> mInputChannel h1 = Some c
              \<and> getName s = getName c))"
proof (cases "result \<noteq> 0")
  case True
  with assms show ?thesis
    by (simp add: android_view_InputChannel_nativeOpenInputChannelPair_def
          jniThrowRuntimeException_def deref_def)
next
  case False
  note zero = this
  show ?thesis
  proof (cases "java_oom w")
    case True
    with zero assms show ?thesis
      by (simp add: android_view_InputChannel_nativeOpenInputChannelPair_def
            NewLongArray_def deref_def)
  next
    case False
    with zero assms show ?thesis
      by (simp add: android_view_InputChannel_nativeOpenInputChannelPair_def
            android_view_InputChannel_createInputChannel_def new_NativeInputChannel_def
            NewLongArray_def ExceptionCheck_def Let_def deref_def
            android_view_InputChannel_nativeGetName_def NewStringUTF_def numeral_2_eq_2)
  qed
qed

theorem open_pair_outcomes_witness:
  "pending world0 = None
   \<and> openInputChannelPair ext_emfile ''x'' = (- 24, None, None)
   \<and> (- 24 :: 32 word) \<noteq> 0
   \<and> android_view_InputChannel_nativeOpenInputChannelPair ext_emfile world0 ''x'' =
       (None, world0\<lparr>pending := Some (RuntimeException
                 ''Could not open input channel pair : Too many open files'')\<rparr>)
   \<and> openInputChannelPair ext_ok ''x'' = (0, Some chanA, Some (chanA\<lparr>getFd := 4\<rparr>))
   \<and> getName chanA = ''x'' \<and> getName (chanA\<lparr>getFd := 4\<rparr>) = ''x''
   \<and> fst (android_view_InputChannel_nativeOpenInputChannelPair ext_ok world0 ''x'') = Some [1, 2]
   \<and> map_option fst (android_view_InputChannel_nativeGetName
        (snd (android_view_InputChannel_nativeOpenInputChannelPair ext_ok world0 ''x'')) 1) =
       Some (Some ''x'')
   \<and> map_option fst (android_view_InputChannel_nativeGetName
        (snd (android_view_InputChannel_nativeOpenInputChannelPair ext_ok world0 ''x'')) 2) =
       Some (Some ''x'')"
proof -
  have p: "pending world0 = None" by (simp add: world0_def)
  have b: "brk world0 = 0" "\<not> java_oom world0" by (simp_all add: world0_def)
  have e: "openInputChannelPair ext_emfile ''x'' = (- 24, None, None)"
    by (simp add: ext_emfile_def ext_ok_def)
  have ne: "(- 24 :: 32 word) \<noteq> 0" by simp
  have s: "strerror ext_emfile 24 = ''Too many open files''"
    by (simp add: ext_emfile_def ext_ok_def)
  have o: "openInputChannelPair ext_ok ''x'' = (0, Some chanA, Some (chanA\<lparr>getFd := 4\<rparr>))"
    by (simp add: ext_ok_def chanA_def)
  have n: "getName chanA = ''x''" "getName (chanA\<lparr>getFd := 4\<rparr>) = ''x''"
    by (simp_all add: chanA_def)
  have contract_e: "(- 24 :: 32 word) = 0 \<longrightarrow> None = Some chanA \<and> None = Some chanA
      \<and> getName chanA = ''x'' \<and> getName chanA = ''x''"
    by simp
  have contract_o: "(0 :: 32 word) = 0 \<longrightarrow> Some chanA = Some chanA
      \<and> Some (chanA\<lparr>getFd := 4\<rparr>) = Some (chanA\<lparr>getFd := 4\<rparr>)
      \<and> getName chanA = ''x'' \<and> getName (chanA\<lparr>getFd := 4\<rparr>) = ''x''"
    using n by simp
  from open_pair_outcomes [OF p e contract_e]
  obtain r w' where
    "android_view_InputChannel_nativeOpenInputChannelPair ext_emfile world0 ''x'' = (r, w')"
    "(- 24 :: 32 word) \<noteq> 0 \<longrightarrow> r = None
       \<and> w' = world0\<lparr>pending := Some (RuntimeException
                  (''Could not open input channel pair : '' @ strerror ext_emfile (- (- 24))))\<rparr>"
    by (elim exE conjE)
  with ne s have failed:
    "android_view_InputChannel_nativeOpenInputChannelPair ext_emfile world0 ''x'' =
       (None, world0\<lparr>pending := Some (RuntimeException
                 ''Could not open input channel pair : Too many open files'')\<rparr>)"
    by simp
  from open_pair_outcomes [OF p o contract_o]
  obtain r w' where
    run: "android_view_InputChannel_nativeOpenInputChannelPair ext_ok world0 ''x'' = (r, w')"
    and ok: "(0 :: 32 word) = 0 \<and> \<not> java_oom world0 \<longrightarrow>
            r = Some [Suc (brk world0), Suc (Suc (brk world0))]
          \<and> deref world0 (Suc (brk world0)) = None
          \<and> deref world0 (Suc (Suc (brk world0))) = None
          \<and> deref w' (Suc (brk world0)) =
              Some \<lparr>mInputChannel = Some chanA, mDisposeCallback = 0, mDisposeData = None\<rparr>
          \<and> deref w' (Suc (Suc (brk world0))) =
              Some \<lparr>mInputChannel = Some (chanA\<lparr>getFd := 4\<rparr>), mDisposeCallback = 0,
                    mDisposeData = None\<rparr>
          \<and> (\<forall>p. p \<noteq> Suc (brk world0) \<and> p \<noteq> Suc (Suc (brk world0)) \<longrightarrow>
                 deref w' p = deref world0 p)
          \<and> w' = world0\<lparr>heap := (heap world0)
                        (Suc (brk world0) := Some \<lparr>mInputChannel = Some chanA,
                                                    mDisposeCallback = 0, mDisposeData = None\<rparr>,
                         Suc (Suc (brk world0)) := Some \<lparr>mInputChannel = Some (chanA\<lparr>getFd := 4\<rparr>),
                                                          mDisposeCallback = 0,
                                                          mDisposeData = None\<rparr>),
                      brk := Suc (Suc (brk world0))\<rparr>
          \<and> pending w' = None
          \<and> android_view_InputChannel_nativeGetName w' (Suc (brk world0)) =
                Some (Some ''x'', w')
          \<and> android_view_InputChannel_nativeGetName w' (Suc (Suc (brk world0))) =
              Some (Some ''x'', w')"
    by (elim exE conjE)
  from ok b have
    "r = Some [Suc (brk world0), Suc (Suc (brk world0))]"
    "android_view_InputChannel_nativeGetName w' (Suc (brk world0)) = Some (Some ''x'', w')"
    "android_view_InputChannel_nativeGetName w' (Suc (Suc (brk world0))) =
       Some (Some ''x'', w')"
    by blast+
  then have
    "r = Some [1, 2]"
    "android_view_InputChannel_nativeGetName w' 1 = Some (Some ''x'', w')"
    "android_view_InputChannel_nativeGetName w' 2 = Some (Some ''x'', w')"
    by (simp_all only: b(1) One_nat_def [symmetric] Suc_1)
  with run have opened:
    "fst (android_view_InputChannel_nativeOpenInputChannelPair ext_ok world0 ''x'') = Some [1, 2]"
    "map_option fst (android_view_InputChannel_nativeGetName
        (snd (android_view_InputChannel_nativeOpenInputChannelPair ext_ok world0 ''x'')) 1) =
       Some (Some ''x'')"
    "map_option fst (android_view_InputChannel_nativeGetName
        (snd (android_view_InputChannel_nativeOpenInputChannelPair ext_ok world0 ''x'')) 2) =
       Some (Some ''x'')"
    by simp_all
  show ?thesis
    by (intro conjI; fact p e ne failed o n opened)
qed

text \<open>
  C7 as the spec words it does not hold: with a channel primitive that opens the pair
  and a runtime that cannot allocate the result array, the call returns null without
  any handle, and what is pending is the runtime's \<open>OutOfMemoryError\<close>, not the
  exception that carries the system error message.
\<close>

theorem open_pair_oom_example:
  "android_view_InputChannel_nativeOpenInputChannelPair ext_ok (world0\<lparr>java_oom := True\<rparr>) ''x'' =
     (None, world0\<lparr>java_oom := True, pending := Some OutOfMemoryError\<rparr>)"
  by (simp add: android_view_InputChannel_nativeOpenInputChannelPair_def ext_ok_def
        NewLongArray_def world0_def)

subsection \<open>Duplication that fails\<close>

text \<open>
  C3, evaluated where the code leaves it.  In \<open>world1\<close> the channel primitive refuses to
  duplicate the channel of the handle at address 3.  \<^verbatim>\<open>nativeDup\<close> throws, but goes on
  to allocate a handle around the null duplicate and returns its address 4: a
  reference that is not 0, to a handle whose channel is null.  \<^verbatim>\<open>nativeGetName\<close>,
  \<^verbatim>\<open>nativeGetToken\<close> and \<^verbatim>\<open>nativeWriteToParcel\<close> on that reference call through the
  null channel.
\<close>

theorem failed_dup_exposes_null_channel:
  "android_view_InputChannel_nativeDup ext_emfile world1 3 = Some (4, world1_failed_dup)
   \<and> deref world1_failed_dup 4 =
       Some \<lparr>mInputChannel = None, mDisposeCallback = 0, mDisposeData = None\<rparr>
   \<and> android_view_InputChannel_nativeGetName world1_failed_dup 4 = None
   \<and> android_view_InputChannel_nativeGetToken world1_failed_dup 4 = None
   \<and> android_view_InputChannel_nativeWriteToParcel ext_ok world1_failed_dup (Some []) 4 = None"
  by (simp add: android_view_InputChannel_nativeDup_def ext_emfile_def ext_ok_def world1_def
        world1_failed_dup_def chanA_def handleA_def deref_def new_NativeInputChannel_def Let_def
        jniThrowRuntimeException_def android_view_InputChannel_nativeGetName_def
        android_view_InputChannel_nativeGetToken_def
        android_view_InputChannel_nativeWriteToParcel_def)

text \<open>
  C6, evaluated where the code leaves it.  Same call: the exception names the channel
  (\<open>x\<close>) and the original handle at address 3 is as it was, but the method does not stop
  at the throw as it does for the reference \<open>0\<close>: address 4, free before the call,
  afterwards holds a handle without channel, and 4 is what the method returns.
\<close>

theorem failed_dup_returns_handle:
  "ic_dup ext_emfile chanA = None
   \<and> deref world1 3 = Some handleA
   \<and> deref world1 4 = None
   \<and> map_option fst (android_view_InputChannel_nativeDup ext_emfile world1 3) = Some 4
   \<and> map_option (\<lambda>r. pending (snd r)) (android_view_InputChannel_nativeDup ext_emfile world1 3) =
       Some (Some (RuntimeException ''Could not duplicate input channel x''))
   \<and> map_option (\<lambda>r. deref (snd r) 3) (android_view_InputChannel_nativeDup ext_emfile world1 3) =
       Some (Some handleA)
   \<and> map_option (\<lambda>r. deref (snd r) 4) (android_view_InputChannel_nativeDup ext_emfile world1 3) =
       Some (Some \<lparr>mInputChannel = None, mDisposeCallback = 0, mDisposeData = None\<rparr>)
   \<and> map_option fst (android_view_InputChannel_nativeDup ext_emfile world1 0) = Some 0"
  by (simp add: android_view_InputChannel_nativeDup_def ext_emfile_def ext_ok_def world1_def
        chanA_def handleA_def deref_def new_NativeInputChannel_def Let_def
        jniThrowRuntimeException_def)

subsection \<open>The absent reference\<close>

text \<open>
  C8.  On the absent reference \<open>0\<close>: \<^verbatim>\<open>nativeGetName\<close> returns null and
  \<^verbatim>\<open>nativeGetToken\<close> returns null, both leaving the world (and so the pending
  exception) as it was; \<^verbatim>\<open>nativeDup\<close> returns 0 with a \<open>RuntimeException\<close> pending
  that says the channel has no valid native object.
\<close>

theorem absent_reference_access:
  "android_view_InputChannel_nativeGetName w 0 = Some (None, w)
   \<and> android_view_InputChannel_nativeGetToken w 0 = Some (JNull, w)
   \<and> android_view_InputChannel_nativeDup x w 0 =
       Some (0, w\<lparr>pending := Some (RuntimeException ''InputChannel has no valid NativeInputChannel'')\<rparr>)"
  by (simp add: android_view_InputChannel_nativeGetName_def
                android_view_InputChannel_nativeGetToken_def
                android_view_InputChannel_nativeDup_def
                jniThrowRuntimeException_def)

end
